theory Spec2Isabelle
  imports Complex_Main
begin

section \<open>Wald and Wilson confidence intervals for a proportion\<close>

text \<open>
  The implementation cell of \<^verbatim>\<open>CI-Proportions-Wald-vs-Wilsons.ipynb\<close> is a straight-line
  script:
  \<^verbatim>\<open>
  p_hat = x / n
  z = norm.ppf(1 - (1 - conf_level) / 2)
  wald_se = np.sqrt(p_hat * (1 - p_hat) / n)
  wald_lower = p_hat - z * wald_se
  wald_upper = p_hat + z * wald_se
  denominator = 1 + z**2 / n
  centre_adj = p_hat + z**2 / (2 * n)
  adj_std_dev = np.sqrt((p_hat * (1 - p_hat) + z**2 / (4 * n)) / n)
  wilson_lower = (centre_adj - z * adj_std_dev) / denominator
  wilson_upper = (centre_adj + z * adj_std_dev) / denominator
  \<close>
  The sample data \<open>n\<close>, \<open>x\<close> and \<open>conf_level\<close> (30, 1 and 0.95 in the notebook) are the
  inputs of the model. \<open>n\<close> and \<open>x\<close> are Python integers. Floating-point numbers are
  idealised as real numbers: rounding, overflow and signed zeros are outside the model. A
  float that is not a finite number (NaN or an infinity) is \<open>None\<close>.

  \<open>norm.ppf\<close> is SciPy's quantile function of the standard normal distribution. It is not
  code of the notebook, so it is the parameter \<open>ppf\<close> of the model; the theorems state
  what they need of it.
\<close>

datatype pyexn = ZeroDivisionError

type_synonym npfloat = "real option"

text \<open>\<open>x / n\<close> on two Python integers raises ZeroDivisionError when \<open>n\<close> is 0.\<close>

definition p_hat :: "int \<Rightarrow> int \<Rightarrow> pyexn + real" where
  "p_hat n x = (if n = 0 then Inl ZeroDivisionError else Inr (real_of_int x / real_of_int n))"

definition z_value :: "(real \<Rightarrow> real) \<Rightarrow> real \<Rightarrow> real" where
  "z_value ppf conf_level = ppf (1 - (1 - conf_level) / 2)"

text \<open>\<open>np.sqrt\<close> of a negative number is NaN (with a warning, not an exception).\<close>

definition np_sqrt :: "real \<Rightarrow> npfloat" where
  "np_sqrt v = (if v < 0 then None else Some (sqrt v))"

text \<open>
  Division of NumPy floats does not raise: a zero divisor gives an infinity or NaN.
\<close>

definition np_div :: "npfloat \<Rightarrow> real \<Rightarrow> npfloat" where
  "np_div a d = (if d = 0 then None else map_option (\<lambda>v. v / d) a)"

subsection \<open>Wald interval\<close>

definition wald_se :: "int \<Rightarrow> real \<Rightarrow> npfloat" where
  "wald_se n p = np_sqrt (p * (1 - p) / real_of_int n)"

definition wald_lower :: "real \<Rightarrow> real \<Rightarrow> npfloat \<Rightarrow> npfloat" where
  "wald_lower p z se = map_option (\<lambda>s. p - z * s) se"

definition wald_upper :: "real \<Rightarrow> real \<Rightarrow> npfloat \<Rightarrow> npfloat" where
  "wald_upper p z se = map_option (\<lambda>s. p + z * s) se"

definition wald_ci :: "(real \<Rightarrow> real) \<Rightarrow> int \<Rightarrow> int \<Rightarrow> real \<Rightarrow> pyexn + (npfloat \<times> npfloat)" where
  "wald_ci ppf n x conf_level =
     (case p_hat n x of
        Inl e \<Rightarrow> Inl e
      | Inr p \<Rightarrow>
          let z = z_value ppf conf_level;
              se = wald_se n p
          in Inr (wald_lower p z se, wald_upper p z se))"

subsection \<open>Wilson interval\<close>

definition denominator :: "int \<Rightarrow> real \<Rightarrow> real" where
  "denominator n z = 1 + z ^ 2 / real_of_int n"

definition centre_adj :: "int \<Rightarrow> real \<Rightarrow> real \<Rightarrow> real" where
  "centre_adj n p z = p + z ^ 2 / real_of_int (2 * n)"

definition adj_std_dev :: "int \<Rightarrow> real \<Rightarrow> real \<Rightarrow> npfloat" where
  "adj_std_dev n p z = np_sqrt ((p * (1 - p) + z ^ 2 / real_of_int (4 * n)) / real_of_int n)"

definition wilson_lower :: "real \<Rightarrow> real \<Rightarrow> npfloat \<Rightarrow> real \<Rightarrow> npfloat" where
  "wilson_lower c z a d = np_div (map_option (\<lambda>s. c - z * s) a) d"

definition wilson_upper :: "real \<Rightarrow> real \<Rightarrow> npfloat \<Rightarrow> real \<Rightarrow> npfloat" where
  "wilson_upper c z a d = np_div (map_option (\<lambda>s. c + z * s) a) d"

definition wilson_ci :: "(real \<Rightarrow> real) \<Rightarrow> int \<Rightarrow> int \<Rightarrow> real \<Rightarrow> pyexn + (npfloat \<times> npfloat)" where
  "wilson_ci ppf n x conf_level =
     (case p_hat n x of
        Inl e \<Rightarrow> Inl e
      | Inr p \<Rightarrow>
          let z = z_value ppf conf_level;
              d = denominator n z;
              c = centre_adj n p z;
              a = adj_std_dev n p z
          in Inr (wilson_lower c z a d, wilson_upper c z a d))"

subsection \<open>Valid inputs\<close>

text \<open>
  The inputs the specification calls valid: a positive number of trials, a number of
  successes between 0 and the number of trials, a confidence level strictly between 0 and 1.
\<close>

definition valid_input :: "int \<Rightarrow> int \<Rightarrow> real \<Rightarrow> bool" where
  "valid_input n x conf_level \<longleftrightarrow> 0 < n \<and> 0 \<le> x \<and> x \<le> n \<and> 0 < conf_level \<and> conf_level < 1"

subsection \<open>The specification's formulas\<close>

text \<open>
  The closed forms of the specification, over the reals, written from its words:
  \<open>p\<close> is successes/trials, the Wald bounds are \<open>p \<mp> z\<cdot>sqrt(p(1-p)/trials)\<close>, and the
  Wilson bounds are \<open>(centre \<mp> z\<cdot>adj) / denom\<close> with \<open>denom = 1 + z\<^sup>2/trials\<close>,
  \<open>centre = p + z\<^sup>2/(2\<cdot>trials)\<close> and \<open>adj = sqrt((p(1-p) + z\<^sup>2/(4\<cdot>trials))/trials)\<close>.
  The critical value is \<open>z = \<Phi>\<^sup>-\<^sup>1(1 - (1 - conf)/2)\<close>, with \<open>ppf\<close> standing for \<open>\<Phi>\<^sup>-\<^sup>1\<close>.
\<close>

definition spec_p :: "int \<Rightarrow> int \<Rightarrow> real" where
  "spec_p trials successes = real_of_int successes / real_of_int trials"

definition spec_z :: "(real \<Rightarrow> real) \<Rightarrow> real \<Rightarrow> real" where
  "spec_z ppf conf = ppf (1 - (1 - conf) / 2)"

definition spec_wald_radius :: "int \<Rightarrow> int \<Rightarrow> real \<Rightarrow> real" where
  "spec_wald_radius trials successes z =
     z * sqrt (spec_p trials successes * (1 - spec_p trials successes) / real_of_int trials)"


definition spec_denom :: "int \<Rightarrow> real \<Rightarrow> real" where
  "spec_denom trials z = 1 + z\<^sup>2 / real_of_int trials"

definition spec_centre :: "int \<Rightarrow> int \<Rightarrow> real \<Rightarrow> real" where
  "spec_centre trials successes z = spec_p trials successes + z\<^sup>2 / (2 * real_of_int trials)"

definition spec_adj :: "int \<Rightarrow> int \<Rightarrow> real \<Rightarrow> real" where
  "spec_adj trials successes z =
     sqrt ((spec_p trials successes * (1 - spec_p trials successes)
            + z\<^sup>2 / (4 * real_of_int trials)) / real_of_int trials)"




section \<open>Evaluating the script on inputs with a positive number of trials\<close>

text \<open>
  With \<open>0 < n\<close> and \<open>0 \<le> x \<le> n\<close> the division does not raise, both square roots have a
  non-negative argument and the Wilson denominator is positive, so that each bound is a
  number, given by the closed form.
\<close>

lemma p_hat_nonzero: "n \<noteq> 0 \<Longrightarrow> p_hat n x = Inr (spec_p n x)"
  by (simp add: p_hat_def spec_p_def)

lemma spec_p_range:
  assumes "0 < n" "0 \<le> x" "x \<le> n"
  shows "0 \<le> spec_p n x" and "spec_p n x \<le> 1"
  using assms by (simp_all add: spec_p_def)

lemma wald_radicand_nonneg:
  assumes "0 < n" "0 \<le> x" "x \<le> n"
  shows "0 \<le> spec_p n x * (1 - spec_p n x) / real_of_int n"
  using assms spec_p_range[OF assms]
  by (intro divide_nonneg_pos mult_nonneg_nonneg) auto

lemma wald_ci_eval:
  assumes "0 < n" "0 \<le> x" "x \<le> n"
  shows "wald_ci ppf n x c =
    Inr (Some (spec_p n x - spec_wald_radius n x (spec_z ppf c)),
         Some (spec_p n x + spec_wald_radius n x (spec_z ppf c)))"
proof -
  have "n \<noteq> 0" using assms by simp
  then show ?thesis
    using wald_radicand_nonneg[OF assms]
    by (simp add: wald_ci_def p_hat_nonzero wald_se_def np_sqrt_def wald_lower_def
        wald_upper_def Let_def spec_wald_radius_def spec_z_def z_value_def)
qed

lemma radicand_nonneg:
  fixes p z m :: real
  assumes "0 < m" "0 \<le> p" "p \<le> 1"
  shows "0 \<le> (p * (1 - p) + z^2 / (4 * m)) / m"
  using assms by (intro divide_nonneg_pos add_nonneg_nonneg mult_nonneg_nonneg) auto

lemma spec_denom_pos: "0 < n \<Longrightarrow> 0 < spec_denom n z"
  unfolding spec_denom_def
  by (intro add_pos_nonneg divide_nonneg_pos) auto

lemma wilson_ci_eval:
  assumes "0 < n" "0 \<le> x" "x \<le> n"
  shows "wilson_ci ppf n x c =
    Inr (Some ((spec_centre n x (spec_z ppf c) - spec_z ppf c * spec_adj n x (spec_z ppf c))
                 / spec_denom n (spec_z ppf c)),
         Some ((spec_centre n x (spec_z ppf c) + spec_z ppf c * spec_adj n x (spec_z ppf c))
                 / spec_denom n (spec_z ppf c)))"
proof -
  have n: "n \<noteq> 0" using assms by simp
  have m: "0 < real_of_int n" using assms by simp
  have d: "denominator n (z_value ppf c) \<noteq> 0"
    using spec_denom_pos[OF assms(1), of "z_value ppf c"]
    by (simp add: spec_denom_def denominator_def)
  have r: "\<not> (spec_p n x * (1 - spec_p n x) + (z_value ppf c)\<^sup>2 / (4 * real_of_int n))
             / real_of_int n < 0"
    using radicand_nonneg[OF m spec_p_range[OF assms], of "z_value ppf c"] by simp
  show ?thesis
    using d r
    by (simp add: wilson_ci_def p_hat_nonzero[OF n] adj_std_dev_def np_sqrt_def wilson_lower_def
        wilson_upper_def np_div_def Let_def spec_adj_def spec_centre_def spec_z_def
        centre_adj_def) (simp add: denominator_def spec_denom_def z_value_def)
qed

section \<open>Algebra of the Wilson bounds\<close>





section \<open>The critical value\<close>





section \<open>Widths as successes vary\<close>













section \<open>The notebook's sample\<close>

text \<open>
  30 trials, 1 success. The square roots are bracketed by rationals whose squares bracket
  the radicands; the critical value is any real within 0.001 of 1.96.
\<close>

lemma example_terms:
  "spec_p 30 1 = 1/30"
  "spec_wald_radius 30 1 z = z * sqrt (29/27000)"
  "spec_centre 30 1 z = 1/30 + z\<^sup>2 / 60"
  "spec_adj 30 1 z = sqrt ((29/900 + z\<^sup>2 / 120) / 30)"
  "spec_denom 30 z = 1 + z\<^sup>2 / 30"
  by (simp_all add: spec_p_def spec_wald_radius_def spec_centre_def spec_adj_def spec_denom_def)

lemma example_wald_bounds:
  fixes z :: real
  assumes z: "1959/1000 \<le> z" "z \<le> 1961/1000"
  shows "\<bar>(1/30 - z * sqrt (29/27000)) - (- 309/10000)\<bar> \<le> 1/1000"
    and "\<bar>(1/30 + z * sqrt (29/27000)) - 976/10000\<bar> \<le> 1/1000"
proof -
  let ?se = "sqrt (29/27000 :: real)"
  have "(327/10000)\<^sup>2 \<le> (29/27000 :: real)" by (simp add: power2_eq_square)
  then have lo: "327/10000 \<le> ?se" by (rule real_le_rsqrt)
  have "(29/27000 :: real) \<le> (328/10000)\<^sup>2" by (simp add: power2_eq_square)
  then have hi: "?se \<le> 328/10000" by (intro real_le_lsqrt) simp_all
  have "1959/1000 * (327/10000) \<le> z * ?se"
    using z lo by (intro mult_mono) simp_all
  moreover have "z * ?se \<le> 1961/1000 * (328/10000)"
    using z hi by (intro mult_mono) simp_all
  ultimately have r: "640593/10000000 \<le> z * ?se" "z * ?se \<le> 643208/10000000" by simp_all
  show "\<bar>(1/30 - z * ?se) - (- 309/10000)\<bar> \<le> 1/1000" using r by linarith
  show "\<bar>(1/30 + z * ?se) - 976/10000\<bar> \<le> 1/1000" using r by linarith
qed

lemma example_wilson_bounds:
  fixes z :: real
  assumes z: "1959/1000 \<le> z" "z \<le> 1961/1000"
  shows "\<bar>((1/30 + z\<^sup>2 / 60) - z * sqrt ((29/900 + z\<^sup>2 / 120) / 30)) / (1 + z\<^sup>2 / 30)
            - 59/10000\<bar> \<le> 1/1000"
    and "\<bar>((1/30 + z\<^sup>2 / 60) + z * sqrt ((29/900 + z\<^sup>2 / 120) / 30)) / (1 + z\<^sup>2 / 30)
            - 1667/10000\<bar> \<le> 1/1000"
proof -
  let ?A = "(29/900 + z\<^sup>2 / 120) / 30"
  let ?a = "sqrt ?A"
  let ?d = "1 + z\<^sup>2 / 30"
  have "(1959/1000)\<^sup>2 \<le> z\<^sup>2" using z by (intro power_mono) simp_all
  moreover have "z\<^sup>2 \<le> (1961/1000)\<^sup>2" using z by (intro power_mono) simp_all
  ultimately have q: "3837/1000 \<le> z\<^sup>2" "z\<^sup>2 \<le> 3846/1000"
    by (simp_all add: power2_eq_square)
  have "(4625/100000)\<^sup>2 \<le> ?A" using q by (simp add: power2_eq_square)
  then have lo: "4625/100000 \<le> ?a" by (rule real_le_rsqrt)
  have "?A \<le> (463/10000)\<^sup>2" using q by (simp add: power2_eq_square)
  then have hi: "?a \<le> 463/10000" by (intro real_le_lsqrt) simp_all
  have "1959/1000 * (4625/100000) \<le> z * ?a"
    using z lo by (intro mult_mono) simp_all
  moreover have "z * ?a \<le> 1961/1000 * (463/10000)"
    using z hi by (intro mult_mono) simp_all
  ultimately have r: "9060/100000 \<le> z * ?a" "z * ?a \<le> 9080/100000" by simp_all
  have d: "0 < ?d" using q by simp
  have l1: "49/10000 * ?d \<le> (1/30 + z\<^sup>2 / 60) - z * ?a" using q r by simp
  have l2: "(1/30 + z\<^sup>2 / 60) - z * ?a \<le> 69/10000 * ?d" using q r by simp
  have u1: "1657/10000 * ?d \<le> (1/30 + z\<^sup>2 / 60) + z * ?a" using q r by simp
  have u2: "(1/30 + z\<^sup>2 / 60) + z * ?a \<le> 1677/10000 * ?d" using q r by simp
  have "49/10000 \<le> ((1/30 + z\<^sup>2 / 60) - z * ?a) / ?d"
    using l1 d by (simp only: pos_le_divide_eq)
  moreover have "((1/30 + z\<^sup>2 / 60) - z * ?a) / ?d \<le> 69/10000"
    using l2 d by (simp only: pos_divide_le_eq)
  ultimately show "\<bar>((1/30 + z\<^sup>2 / 60) - z * ?a) / ?d - 59/10000\<bar> \<le> 1/1000"
    by linarith
  have "1657/10000 \<le> ((1/30 + z\<^sup>2 / 60) + z * ?a) / ?d"
    using u1 d by (simp only: pos_le_divide_eq)
  moreover have "((1/30 + z\<^sup>2 / 60) + z * ?a) / ?d \<le> 1677/10000"
    using u2 d by (simp only: pos_divide_le_eq)
  ultimately show "\<bar>((1/30 + z\<^sup>2 / 60) + z * ?a) / ?d - 1667/10000\<bar> \<le> 1/1000"
    by linarith
qed

section \<open>The claims\<close>













text \<open>
  C7. There is a valid input, with few trials and a sample proportion near 0, for which the
  Wald interval leaves \<open>[0, 1]\<close>: the bounds are not clamped. At the notebook's own sample
  (30 trials, 1 success, confidence level 0.95) the lower bound is negative as soon as
  \<open>norm.ppf(0.975)\<close> is at least 1.5; the normal quantile there is about 1.96.
\<close>

theorem wald_leaves_unit_interval:
  assumes "3/2 \<le> ppf (975/1000)"
  shows "valid_input 30 1 (95/100) \<and>
         (\<exists>l u. wald_ci ppf 30 1 (95/100) = Inr (Some l, Some u) \<and> l < 0)"
proof -
  have v: "(0::int) < 30" "(0::int) \<le> 1" "(1::int) \<le> 30" by simp_all
  have z: "3/2 \<le> spec_z ppf (95/100)" using assms by (simp add: spec_z_def)
  have "(1/45)\<^sup>2 < (29/27000 :: real)" by (simp add: power2_eq_square)
  then have s: "1/45 < sqrt (29/27000)" by (rule real_less_rsqrt)
  have "3/2 * (1/45) \<le> spec_z ppf (95/100) * (1/45)"
    using z by (intro mult_right_mono) simp_all
  also have "\<dots> < spec_z ppf (95/100) * sqrt (29/27000)"
    using z s by (intro mult_strict_left_mono) simp_all
  finally have "1/30 < spec_z ppf (95/100) * sqrt (29/27000)" by simp
  then have "spec_p 30 1 - spec_wald_radius 30 1 (spec_z ppf (95/100)) < 0"
    by (simp add: spec_p_def spec_wald_radius_def)
  then show ?thesis by (simp add: wald_ci_eval[OF v] valid_input_def)
qed

theorem wald_leaves_unit_interval_witness:
  "(3/2::real) \<le> 196/100 \<and> valid_input 30 1 (95/100) \<and>
   (\<exists>l u. wald_ci (\<lambda>q. 196/100) 30 1 (95/100) = Inr (Some l, Some u) \<and> l < 0)"
proof -
  have h: "(3/2::real) \<le> (\<lambda>q::real. 196/100) (975/1000)" by simp
  show ?thesis using wald_leaves_unit_interval[of "\<lambda>q. 196/100", OF h] by simp
qed






text \<open>
  C5. For 30 trials, 1 success and a confidence level of 0.95 the Wald computation returns
  \<open>(-0.0309, 0.0976)\<close> and the Wilson computation returns \<open>(0.0059, 0.1667)\<close>, each bound
  within 0.001 of the stated value. The script asks \<open>norm.ppf\<close> for the quantile at 0.975;
  the theorem takes from it a value within 0.001 of 1.96 (the normal quantile there is
  1.95996...).
\<close>

theorem notebook_example:
  assumes "1959/1000 \<le> ppf (975/1000)" "ppf (975/1000) \<le> 1961/1000"
  shows "\<exists>wl wu sl su.
      wald_ci ppf 30 1 (95/100) = Inr (Some wl, Some wu) \<and>
      wilson_ci ppf 30 1 (95/100) = Inr (Some sl, Some su) \<and>
      \<bar>wl - (- 309/10000)\<bar> \<le> 1/1000 \<and> \<bar>wu - 976/10000\<bar> \<le> 1/1000 \<and>
      \<bar>sl - 59/10000\<bar> \<le> 1/1000 \<and> \<bar>su - 1667/10000\<bar> \<le> 1/1000"
proof -
  have v: "(0::int) < 30" "(0::int) \<le> 1" "(1::int) \<le> 30" by simp_all
  let ?z = "spec_z ppf (95/100)"
  have z: "1959/1000 \<le> ?z" "?z \<le> 1961/1000" using assms by (simp_all add: spec_z_def)
  have w: "wald_ci ppf 30 1 (95/100) =
      Inr (Some (1/30 - ?z * sqrt (29/27000)), Some (1/30 + ?z * sqrt (29/27000)))"
    by (simp only: wald_ci_eval[OF v] example_terms)
  have s: "wilson_ci ppf 30 1 (95/100) =
      Inr (Some (((1/30 + ?z\<^sup>2 / 60) - ?z * sqrt ((29/900 + ?z\<^sup>2 / 120) / 30)) / (1 + ?z\<^sup>2 / 30)),
           Some (((1/30 + ?z\<^sup>2 / 60) + ?z * sqrt ((29/900 + ?z\<^sup>2 / 120) / 30)) / (1 + ?z\<^sup>2 / 30)))"
    by (simp only: wilson_ci_eval[OF v] example_terms)
  show ?thesis
    using w s example_wald_bounds[OF z] example_wilson_bounds[OF z] by blast
qed

theorem notebook_example_witness:
  "(1959/1000::real) \<le> 196/100 \<and> (196/100::real) \<le> 1961/1000 \<and>
   (\<exists>wl wu sl su.
      wald_ci (\<lambda>q. 196/100) 30 1 (95/100) = Inr (Some wl, Some wu) \<and>
      wilson_ci (\<lambda>q. 196/100) 30 1 (95/100) = Inr (Some sl, Some su) \<and>
      \<bar>wl - (- 309/10000)\<bar> \<le> 1/1000 \<and> \<bar>wu - 976/10000\<bar> \<le> 1/1000 \<and>
      \<bar>sl - 59/10000\<bar> \<le> 1/1000 \<and> \<bar>su - 1667/10000\<bar> \<le> 1/1000)"
proof -
  have h: "(1959/1000::real) \<le> (\<lambda>q::real. 196/100) (975/1000)"
    "(\<lambda>q::real. 196/100) (975/1000) \<le> (1961/1000::real)" by simp_all
  show ?thesis using notebook_example[of "\<lambda>q. 196/100", OF h] by simp
qed

end
